theory Spec2Isabelle
  imports Main "HOL-Library.Word"
begin

section \<open>FoundationShims.h: the declarations of the header\<close>

text \<open>
  The header \<^verbatim>\<open>stdlib/public/SwiftShims/FoundationShims.h\<close> holds no function body:
  it is a list of type declarations and function prototypes between preprocessor
  directives. The model below keeps that shape. A C type is a value of \<open>ctype\<close>, a
  declaration a value of \<open>decl\<close>, a line of the file an \<open>item\<close>, and the
  preprocessor is the function \<open>pp_items\<close> that walks the items with the set of
  defined macros and returns the declarations the compiler sees.
\<close>

subsection \<open>Types\<close>

text \<open>Clang's nullability qualifiers \<^verbatim>\<open>_Nonnull\<close> and \<^verbatim>\<open>_Nullable\<close>; a pointer
  written with neither is \<open>Null_unspecified\<close>.\<close>

datatype nullability = Nonnull | Nullable | Null_unspecified

text \<open>Objective-C ownership qualifiers: \<^verbatim>\<open>__unsafe_unretained\<close>, or none written.\<close>

datatype ownership = Unsafe_unretained | Ownership_default

datatype ctype =
    Void
  | Signed_char
  | Unsigned_long
  | Cxx_bool
  | C_Bool
  | Signed_int nat
  | Objc_id ownership nullability
  | Typedef_name string
  | Pointer ctype nullability
  | Array ctype nat
  | Macro_type string ctype

text \<open>
  \<open>Cxx_bool\<close> is C++ \<^verbatim>\<open>bool\<close>, \<open>C_Bool\<close> is C \<^verbatim>\<open>_Bool\<close>, \<open>Objc_id\<close> is the
  Objective-C object reference \<^verbatim>\<open>id\<close>, \<open>Array t n\<close> is \<^verbatim>\<open>t[n]\<close>. \<open>Signed_int w\<close>
  is a signed integer of \<open>w\<close> bits; the header never writes one, it only reaches them
  through the typedef names of \<^verbatim>\<open>SwiftStdint.h\<close>. \<open>Macro_type x t\<close> is the
  underlying type that a definition of the macro \<open>x\<close> made outside this file gives an
  enumeration from the type argument \<open>t\<close>: the body of such a definition is not known
  here, so neither is the type.
\<close>

subsection \<open>Declarations\<close>

record prototype =
  runtime_stdlib_interface :: bool
  return_type :: ctype
  fn_name :: string
  params :: "(string \<times> ctype) list"

text \<open>
  \<open>runtime_stdlib_interface\<close> records the \<^verbatim>\<open>SWIFT_RUNTIME_STDLIB_INTERFACE\<close> marker
  in front of a prototype. An enumerator is its name and its explicit value, when one is
  written (\<^verbatim>\<open>= 0\<close>). \<open>Linkage_open\<close> is the line
  \<^verbatim>\<open>namespace swift { extern "C" {\<close> and \<open>Linkage_close\<close> the line \<^verbatim>\<open>}}\<close>;
  \<open>Included f\<close> marks the place where the file \<open>f\<close> was included, and
  \<open>Unexpanded x\<close> a use of the macro \<open>x\<close> where no definition of it is in force,
  which does not compile.
\<close>

datatype decl =
    Typedef_struct string "(string \<times> ctype) list"
  | Typedef_enum string ctype "(string \<times> int option) list"
  | Typedef string ctype
  | Prototype prototype
  | Linkage_open
  | Linkage_close
  | Included string
  | Unexpanded string

datatype item =
    Decl decl
  | Define string
  | Include string
  | Enum_by_macro string ctype string "(string \<times> int option) list"
  | Ifdef string "item list" "item list"
  | Ifndef string "item list" "item list"

text \<open>
  \<open>Enum_by_macro x t n es\<close> is an enumeration declared through a macro, as line 64
  does: \<^verbatim>\<open>typedef x(t, n) { es };\<close>. What it declares depends on the definition of
  \<open>x\<close> in force at that line.
\<close>

subsection \<open>The file\<close>

definition guard :: string where
  "guard = ''SWIFT_STDLIB_SHIMS_FOUNDATIONSHIMS_H''"

definition SwiftNSRange :: decl where
  "SwiftNSRange = Typedef_struct ''_SwiftNSRange''
     [(''location'', Typedef_name ''__swift_intptr_t''),
      (''length'', Typedef_name ''__swift_intptr_t'')]"

definition SwiftNSFastEnumerationState :: decl where
  "SwiftNSFastEnumerationState = Typedef_struct ''_SwiftNSFastEnumerationState''
     [(''state'', Unsigned_long),
      (''itemsPtr'', Pointer (Objc_id Unsafe_unretained Nullable) Nullable),
      (''mutationsPtr'', Pointer Unsigned_long Nullable),
      (''extra'', Array Unsigned_long 5)]"

definition SwiftNSOperatingSystemVersion :: decl where
  "SwiftNSOperatingSystemVersion = Typedef_struct ''_SwiftNSOperatingSystemVersion''
     [(''majorVersion'', Typedef_name ''__swift_intptr_t''),
      (''minorVersion'', Typedef_name ''__swift_intptr_t''),
      (''patchVersion'', Typedef_name ''__swift_intptr_t'')]"

definition swift_stdlib_operatingSystemVersion :: prototype where
  "swift_stdlib_operatingSystemVersion =
     \<lparr>runtime_stdlib_interface = True,
      return_type = Typedef_name ''_SwiftNSOperatingSystemVersion'',
      fn_name = ''_swift_stdlib_operatingSystemVersion'',
      params = []\<rparr>"

definition SwiftKnownNSErrorKey_enumerators :: "(string \<times> int option) list" where
  "SwiftKnownNSErrorKey_enumerators =
     [(''_SwiftKnownNSErrorKeyLocalizedDescription'', Some 0),
      (''_SwiftKnownNSErrorKeyLocalizedFailureReason'', None),
      (''_SwiftKnownNSErrorKeyLocalizedRecoverySuggestion'', None),
      (''_SwiftKnownNSErrorKeyHelpAnchor'', None),
      (''_SwiftKnownNSErrorKeyLocalizedRecoveryOptions'', None),
      (''_SwiftKnownNSErrorKeyRecoveryAttempter'', None)]"

text \<open>
  The enumeration as lines 64 to 71 declare it when the definition of
  \<^verbatim>\<open>SWIFT_ENUM\<close> in force is the file's own, that of line 61,
  \<^verbatim>\<open>#define SWIFT_ENUM(_type, _name) enum _name : _type _name; enum _name : _type\<close>:
  a typedef of an enumeration with the underlying type written. Where the includer has
  defined \<^verbatim>\<open>SWIFT_ENUM\<close> before, lines 60 to 62 leave that definition in force and
  the preprocessor below does not produce this declaration.
\<close>

definition SwiftKnownNSErrorKey_decl :: decl where
  "SwiftKnownNSErrorKey_decl =
     Typedef_enum ''_SwiftKnownNSErrorKey'' (Typedef_name ''__swift_int8_t'')
       SwiftKnownNSErrorKey_enumerators"

definition swift_stdlib_nserror_key :: prototype where
  "swift_stdlib_nserror_key =
     \<lparr>runtime_stdlib_interface = True,
      return_type = Objc_id Ownership_default Nonnull,
      fn_name = ''_swift_stdlib_nserror_key'',
      params = [(''key'', Typedef_name ''_SwiftKnownNSErrorKey'')]\<rparr>"

definition SwiftObjCBool :: decl where
  "SwiftObjCBool = Typedef ''_SwiftObjCBool'' Signed_char"

definition SwiftCBool_cxx :: decl where
  "SwiftCBool_cxx = Typedef ''_SwiftCBool'' Cxx_bool"

definition SwiftCBool_c :: decl where
  "SwiftCBool_c = Typedef ''_SwiftCBool'' C_Bool"

definition swift_stdlib_perform_error_recovery_selector :: prototype where
  "swift_stdlib_perform_error_recovery_selector =
     \<lparr>runtime_stdlib_interface = True,
      return_type = Void,
      fn_name = ''_swift_stdlib_perform_error_recovery_selector'',
      params =
        [(''delegate'', Objc_id Ownership_default Nullable),
         (''selector'', Pointer Void Nonnull),
         (''success'', Typedef_name ''_SwiftCBool''),
         (''contextInfo'', Pointer Void Nullable)]\<rparr>"

text \<open>The lines of the file between \<^verbatim>\<open>#define SWIFT_STDLIB_SHIMS_FOUNDATIONSHIMS_H\<close>
  and the last \<^verbatim>\<open>#endif\<close>, in the order of the file.\<close>

definition guarded_body :: "item list" where
  "guarded_body =
     [Define guard,
      Include ''SwiftStdint.h'',
      Ifdef ''__cplusplus'' [Decl Linkage_open] [],
      Decl SwiftNSRange,
      Ifdef ''__OBJC2__'' [Decl SwiftNSFastEnumerationState] [],
      Decl SwiftNSOperatingSystemVersion,
      Decl (Prototype swift_stdlib_operatingSystemVersion),
      Ifndef ''SWIFT_ENUM'' [Define ''SWIFT_ENUM''] [],
      Enum_by_macro ''SWIFT_ENUM'' (Typedef_name ''__swift_int8_t'') ''_SwiftKnownNSErrorKey''
        SwiftKnownNSErrorKey_enumerators,
      Decl (Prototype swift_stdlib_nserror_key),
      Decl SwiftObjCBool,
      Ifdef ''__cplusplus'' [Decl SwiftCBool_cxx] [Decl SwiftCBool_c],
      Decl (Prototype swift_stdlib_perform_error_recovery_selector),
      Ifdef ''__cplusplus'' [Decl Linkage_close] []]"

definition FoundationShims_h :: "item list" where
  "FoundationShims_h = [Ifndef guard guarded_body []]"

subsection \<open>The preprocessor\<close>

text \<open>
  The state of the preprocessor is a pair: the set of macros defined so far, and among
  them those whose definition in force was made by a \<^verbatim>\<open>#define\<close> of this file. A
  declaration goes to the output, \<^verbatim>\<open>#define\<close> adds its macro to both sets, a
  conditional chooses a branch on the first set as it stands at that point. The file
  included, \<^verbatim>\<open>SwiftStdint.h\<close>, is not part of this development: what it does to the
  defined macros is the parameter \<open>inc\<close>, a macro it leaves undefined is no longer one
  of this file's, and the output only records that it was included.

  An enumeration declared through a macro is expanded with the definition in force. With
  this file's own definition (line 61) it is the typedef of an enumeration with the
  underlying type written. With a definition made outside this file it is still the
  enumeration of that name with those enumerators, since the block after the macro is an
  enumerator list and line 74 uses the name as a type, but its underlying type is what
  that definition makes of the argument. With no definition the line does not compile.
\<close>

fun pp_item :: "(string \<Rightarrow> string set \<Rightarrow> string set) \<Rightarrow> item \<Rightarrow> string set \<times> string set
                  \<Rightarrow> decl list \<times> (string set \<times> string set)"
and pp_items :: "(string \<Rightarrow> string set \<Rightarrow> string set) \<Rightarrow> item list \<Rightarrow> string set \<times> string set
                  \<Rightarrow> decl list \<times> (string set \<times> string set)" where
  "pp_item inc (Decl d) (m, own) = ([d], (m, own))"
| "pp_item inc (Define x) (m, own) = ([], (insert x m, insert x own))"
| "pp_item inc (Include f) (m, own) = ([Included f], (inc f m, own \<inter> inc f m))"
| "pp_item inc (Enum_by_macro x t n es) (m, own) =
     ([if x \<in> own then Typedef_enum n t es
       else if x \<in> m then Typedef_enum n (Macro_type x t) es
       else Unexpanded x],
      (m, own))"
| "pp_item inc (Ifdef x a b) (m, own) =
     (if x \<in> m then pp_items inc a (m, own) else pp_items inc b (m, own))"
| "pp_item inc (Ifndef x a b) (m, own) =
     (if x \<notin> m then pp_items inc a (m, own) else pp_items inc b (m, own))"
| "pp_items inc [] s = ([], s)"
| "pp_items inc (i # rest) s =
     (case pp_item inc i s of
        (ds, s') \<Rightarrow> (case pp_items inc rest s' of (ds', s'') \<Rightarrow> (ds @ ds', s'')))"

text \<open>The declarations of a translation unit that includes the header once, starting
  with the macros \<open>m\<close>, none of them defined by this file.\<close>

definition translation_unit :: "(string \<Rightarrow> string set \<Rightarrow> string set) \<Rightarrow> string set \<Rightarrow> decl list" where
  "translation_unit inc m = fst (pp_items inc FoundationShims_h (m, {}))"

text \<open>Every declaration written in the file, whatever the conditionals around it,
  a macro read with the file's own definition.\<close>

fun written_item :: "item \<Rightarrow> decl list"
and written :: "item list \<Rightarrow> decl list" where
  "written_item (Decl d) = [d]"
| "written_item (Define x) = []"
| "written_item (Include f) = []"
| "written_item (Enum_by_macro x t n es) = [Typedef_enum n t es]"
| "written_item (Ifdef x a b) = written a @ written b"
| "written_item (Ifndef x a b) = written a @ written b"
| "written [] = []"
| "written (i # rest) = written_item i @ written rest"

subsection \<open>Enumerator values\<close>

text \<open>The rule of C for the value of an enumerator: the value written, or one more
  than the enumerator before it; the first one is 0 when none is written.\<close>

fun enum_values :: "int \<Rightarrow> (string \<times> int option) list \<Rightarrow> (string \<times> int) list" where
  "enum_values nxt [] = []"
| "enum_values nxt ((n, None) # es) = (n, nxt) # enum_values (nxt + 1) es"
| "enum_values nxt ((n, Some v) # es) = (n, v) # enum_values (v + 1) es"

subsection \<open>Looking declarations up\<close>

fun decl_name :: "decl \<Rightarrow> string option" where
  "decl_name (Typedef_struct n fs) = Some n"
| "decl_name (Typedef_enum n t es) = Some n"
| "decl_name (Typedef n t) = Some n"
| "decl_name (Prototype p) = Some (fn_name p)"
| "decl_name Linkage_open = None"
| "decl_name Linkage_close = None"
| "decl_name (Included f) = None"
| "decl_name (Unexpanded x) = None"

text \<open>The first declaration of a name among the declarations the compiler sees.\<close>

fun lookup_decl :: "string \<Rightarrow> decl list \<Rightarrow> decl option" where
  "lookup_decl n [] = None"
| "lookup_decl n (d # ds) = (if decl_name d = Some n then Some d else lookup_decl n ds)"

fun is_prototype :: "decl \<Rightarrow> bool" where
  "is_prototype (Prototype p) = True"
| "is_prototype d = False"

text \<open>The mirrored types are the struct and enum declarations; the two boolean
  aliases are plain typedefs of a scalar type.\<close>

fun is_mirrored_type :: "decl \<Rightarrow> bool" where
  "is_mirrored_type (Typedef_struct n fs) = True"
| "is_mirrored_type (Typedef_enum n t es) = True"
| "is_mirrored_type d = False"

fun is_scalar_alias :: "decl \<Rightarrow> bool" where
  "is_scalar_alias (Typedef n t) = True"
| "is_scalar_alias d = False"

text \<open>The macros defined at the line after \<^verbatim>\<open>#include "SwiftStdint.h"\<close>, when the
  header is entered with the macros \<open>m\<close> and its guard not yet defined.\<close>

definition macros_after_include :: "(string \<Rightarrow> string set \<Rightarrow> string set) \<Rightarrow> string set \<Rightarrow> string set" where
  "macros_after_include inc m = inc ''SwiftStdint.h'' (insert guard m)"

text \<open>Including the header \<open>n\<close> times in a row is preprocessing \<open>n\<close> copies of it;
  the result is the declarations and the macros defined at the end.\<close>

definition include_times :: "(string \<Rightarrow> string set \<Rightarrow> string set) \<Rightarrow> nat \<Rightarrow> string set
    \<Rightarrow> decl list \<times> string set" where
  "include_times inc n m =
     (case pp_items inc (concat (replicate n FoundationShims_h)) (m, {}) of
        (ds, (m', own)) \<Rightarrow> (ds, m'))"

subsection \<open>The integer types of SwiftStdint.h\<close>

text \<open>
  Modelled from the spec: the header \<^verbatim>\<open>SwiftStdint.h\<close>, which declares
  \<^verbatim>\<open>__swift_intptr_t\<close> and \<^verbatim>\<open>__swift_int8_t\<close>, is not among the sources. The spec
  calls the fields of the range and version mirrors platform-native-width integers and
  the type under the enumeration a narrow integer; the names say signed, pointer-wide
  and 8 bits wide. The width of a pointer on the platform is the parameter \<open>ptr_bits\<close>.
\<close>

definition stdint_typedef :: "nat \<Rightarrow> string \<Rightarrow> ctype option" where
  "stdint_typedef ptr_bits n =
     (if n = ''__swift_intptr_t'' then Some (Signed_int ptr_bits)
      else if n = ''__swift_int8_t'' then Some (Signed_int 8)
      else None)"

fun resolve :: "nat \<Rightarrow> ctype \<Rightarrow> ctype" where
  "resolve ptr_bits (Typedef_name n) =
     (case stdint_typedef ptr_bits n of Some t \<Rightarrow> t | None \<Rightarrow> Typedef_name n)"
| "resolve ptr_bits t = t"

definition resolve_fields :: "nat \<Rightarrow> (string \<times> ctype) list \<Rightarrow> (string \<times> ctype) list" where
  "resolve_fields ptr_bits fs = map (\<lambda>(n, t). (n, resolve ptr_bits t)) fs"

subsection \<open>The known error keys as values\<close>

datatype SwiftKnownNSErrorKey =
    LocalizedDescription
  | LocalizedFailureReason
  | LocalizedRecoverySuggestion
  | HelpAnchor
  | LocalizedRecoveryOptions
  | RecoveryAttempter

fun enumerator_name :: "SwiftKnownNSErrorKey \<Rightarrow> string" where
  "enumerator_name LocalizedDescription = ''_SwiftKnownNSErrorKeyLocalizedDescription''"
| "enumerator_name LocalizedFailureReason = ''_SwiftKnownNSErrorKeyLocalizedFailureReason''"
| "enumerator_name LocalizedRecoverySuggestion = ''_SwiftKnownNSErrorKeyLocalizedRecoverySuggestion''"
| "enumerator_name HelpAnchor = ''_SwiftKnownNSErrorKeyHelpAnchor''"
| "enumerator_name LocalizedRecoveryOptions = ''_SwiftKnownNSErrorKeyLocalizedRecoveryOptions''"
| "enumerator_name RecoveryAttempter = ''_SwiftKnownNSErrorKeyRecoveryAttempter''"

definition all_keys :: "SwiftKnownNSErrorKey list" where
  "all_keys = [LocalizedDescription, LocalizedFailureReason, LocalizedRecoverySuggestion,
     HelpAnchor, LocalizedRecoveryOptions, RecoveryAttempter]"

text \<open>A value of the 8-bit underlying type; an enumerator outside its range does not
  compile.\<close>

definition int8_of :: "int \<Rightarrow> 8 word option" where
  "int8_of v = (if - 128 \<le> v \<and> v \<le> 127 then Some (word_of_int v) else None)"

text \<open>The value of a tag: the value C gives its enumerator in the declaration of the
  file, in the underlying type.\<close>

definition rawValue :: "SwiftKnownNSErrorKey \<Rightarrow> 8 word option" where
  "rawValue k =
     (case map_of (enum_values 0 SwiftKnownNSErrorKey_enumerators) (enumerator_name k) of
        None \<Rightarrow> None
      | Some v \<Rightarrow> int8_of v)"

subsection \<open>References and nullability\<close>

datatype 'a ref = Null | Ref 'a

fun nullability_of :: "ctype \<Rightarrow> nullability option" where
  "nullability_of (Pointer t n) = Some n"
| "nullability_of (Objc_id ow n) = Some n"
| "nullability_of t = None"

text \<open>What a declared type admits: a null reference where the type is a pointer not
  marked \<^verbatim>\<open>_Nonnull\<close>, any other reference where the type is a pointer at all.\<close>

fun admits :: "ctype \<Rightarrow> 'a ref \<Rightarrow> bool" where
  "admits t Null = (nullability_of t = Some Nullable \<or> nullability_of t = Some Null_unspecified)"
| "admits t (Ref x) = (nullability_of t \<noteq> None)"

text \<open>A parameter through which the callee can hand a result or an error back: a
  pointer to anything but \<^verbatim>\<open>void\<close>.\<close>

fun is_out_param :: "ctype \<Rightarrow> bool" where
  "is_out_param (Pointer Void n) = False"
| "is_out_param (Pointer t n) = True"
| "is_out_param t = False"

subsection \<open>The key lookup behind the prototype\<close>

text \<open>
  Modelled from the spec: the body of \<^verbatim>\<open>_swift_stdlib_nserror_key\<close> is not among
  the sources, only its prototype is. The spec: given one tag from the known-error-key
  enumeration, it returns the framework's canonical key object for that metadata field,
  a non-optional reference; behaviour for a value outside the enumeration is undefined.
  The argument is the 8-bit value passed; the result is \<open>None\<close> where the behaviour
  is undefined, and \<open>Ref k\<close> stands for the framework's key object of the field \<open>k\<close>.
\<close>

definition nserror_key :: "8 word \<Rightarrow> SwiftKnownNSErrorKey ref option" where
  "nserror_key w =
     (case filter (\<lambda>k. rawValue k = Some w) all_keys of
        [] \<Rightarrow> None
      | k # ks \<Rightarrow> Some (Ref k))"

section \<open>Facts about the model\<close>

text \<open>What the preprocessor makes of the guarded lines, in closed form: the three
  conditionals on \<^verbatim>\<open>__cplusplus\<close> and the one on \<^verbatim>\<open>__OBJC2__\<close> read the macros
  as they stand after the include, and the enumeration is read with the includer's
  \<^verbatim>\<open>SWIFT_ENUM\<close> exactly when one is defined there that is not this file's.\<close>

lemma pp_guarded_body:
  "pp_items inc guarded_body (m, own) =
     ([Included ''SwiftStdint.h'']
        @ (if ''__cplusplus'' \<in> macros_after_include inc m then [Linkage_open] else [])
        @ [SwiftNSRange]
        @ (if ''__OBJC2__'' \<in> macros_after_include inc m then [SwiftNSFastEnumerationState] else [])
        @ [SwiftNSOperatingSystemVersion,
           Prototype swift_stdlib_operatingSystemVersion]
        @ (if ''SWIFT_ENUM'' \<in> macros_after_include inc m \<and> ''SWIFT_ENUM'' \<notin> own
           then [Typedef_enum ''_SwiftKnownNSErrorKey''
                   (Macro_type ''SWIFT_ENUM'' (Typedef_name ''__swift_int8_t''))
                   SwiftKnownNSErrorKey_enumerators]
           else [SwiftKnownNSErrorKey_decl])
        @ [Prototype swift_stdlib_nserror_key,
           SwiftObjCBool]
        @ (if ''__cplusplus'' \<in> macros_after_include inc m then [SwiftCBool_cxx] else [SwiftCBool_c])
        @ [Prototype swift_stdlib_perform_error_recovery_selector]
        @ (if ''__cplusplus'' \<in> macros_after_include inc m then [Linkage_close] else []),
      (insert ''SWIFT_ENUM'' (macros_after_include inc m),
       (if ''SWIFT_ENUM'' \<in> macros_after_include inc m
        then insert guard own \<inter> macros_after_include inc m
        else insert ''SWIFT_ENUM'' (insert guard own \<inter> macros_after_include inc m))))"
  by (simp add: guarded_body_def macros_after_include_def insert_absorb
      SwiftKnownNSErrorKey_decl_def guard_def)

lemma pp_header:
  "pp_items inc FoundationShims_h (m, own) =
     (if guard \<in> m then ([], (m, own)) else pp_items inc guarded_body (m, own))"
  by (simp add: FoundationShims_h_def split: prod.split)

lemma written_header:
  "written FoundationShims_h =
     [Linkage_open, SwiftNSRange, SwiftNSFastEnumerationState, SwiftNSOperatingSystemVersion,
      Prototype swift_stdlib_operatingSystemVersion, SwiftKnownNSErrorKey_decl,
      Prototype swift_stdlib_nserror_key, SwiftObjCBool, SwiftCBool_cxx, SwiftCBool_c,
      Prototype swift_stdlib_perform_error_recovery_selector, Linkage_close]"
  by (simp add: FoundationShims_h_def guarded_body_def SwiftKnownNSErrorKey_decl_def)

lemma translation_unit_guarded: "guard \<in> m \<Longrightarrow> translation_unit inc m = []"
  by (simp add: translation_unit_def pp_header)

lemma pp_items_append:
  "pp_items inc (a @ b) s =
     (case pp_items inc a s of
        (ds, s') \<Rightarrow> (case pp_items inc b s' of (ds', s'') \<Rightarrow> (ds @ ds', s'')))"
  by (induction a arbitrary: s) (simp_all split: prod.split)

lemma pp_copies_guarded:
  "guard \<in> m \<Longrightarrow>
     pp_items inc (concat (replicate n FoundationShims_h)) (m, own) = ([], (m, own))"
  by (induction n) (simp_all add: pp_items_append pp_header)

lemma pp_copies_Suc:
  "pp_items inc (concat (replicate (Suc n) FoundationShims_h)) s =
     (case pp_items inc FoundationShims_h s of
        (ds, s') \<Rightarrow>
          (case pp_items inc (concat (replicate n FoundationShims_h)) s' of
             (ds', s'') \<Rightarrow> (ds @ ds', s'')))"
  by (simp add: pp_items_append)

lemma guard_after:
  assumes "guard \<in> macros_after_include inc m"
  shows "guard \<in> fst (snd (pp_items inc FoundationShims_h (m, own)))"
  using assms by (simp add: pp_header pp_guarded_body)

lemma enum_values_keys:
  "enum_values 0 SwiftKnownNSErrorKey_enumerators =
     [(''_SwiftKnownNSErrorKeyLocalizedDescription'', 0),
      (''_SwiftKnownNSErrorKeyLocalizedFailureReason'', 1),
      (''_SwiftKnownNSErrorKeyLocalizedRecoverySuggestion'', 2),
      (''_SwiftKnownNSErrorKeyHelpAnchor'', 3),
      (''_SwiftKnownNSErrorKeyLocalizedRecoveryOptions'', 4),
      (''_SwiftKnownNSErrorKeyRecoveryAttempter'', 5)]"
  by (simp add: SwiftKnownNSErrorKey_enumerators_def)

lemma rawValue_simps:
  "rawValue LocalizedDescription = Some 0"
  "rawValue LocalizedFailureReason = Some 1"
  "rawValue LocalizedRecoverySuggestion = Some 2"
  "rawValue HelpAnchor = Some 3"
  "rawValue LocalizedRecoveryOptions = Some 4"
  "rawValue RecoveryAttempter = Some 5"
  by (simp_all add: rawValue_def enum_values_keys int8_of_def)

lemma all_keys_complete: "k \<in> set all_keys"
  by (cases k) (simp_all add: all_keys_def)

lemma lookup_translation_unit:
  "lookup_decl n (translation_unit inc m) =
     (if guard \<in> m then None else lookup_decl n (fst (pp_items inc guarded_body (m, {}))))"
  by (simp add: translation_unit_def pp_header)

lemma decl_names:
  "decl_name SwiftNSRange = Some ''_SwiftNSRange''"
  "decl_name SwiftNSFastEnumerationState = Some ''_SwiftNSFastEnumerationState''"
  "decl_name SwiftNSOperatingSystemVersion = Some ''_SwiftNSOperatingSystemVersion''"
  "decl_name SwiftKnownNSErrorKey_decl = Some ''_SwiftKnownNSErrorKey''"
  "decl_name SwiftObjCBool = Some ''_SwiftObjCBool''"
  "decl_name SwiftCBool_cxx = Some ''_SwiftCBool''"
  "decl_name SwiftCBool_c = Some ''_SwiftCBool''"
  "fn_name swift_stdlib_operatingSystemVersion = ''_swift_stdlib_operatingSystemVersion''"
  "fn_name swift_stdlib_nserror_key = ''_swift_stdlib_nserror_key''"
  "fn_name swift_stdlib_perform_error_recovery_selector =
     ''_swift_stdlib_perform_error_recovery_selector''"
  by (simp_all add: SwiftNSRange_def SwiftNSFastEnumerationState_def
      SwiftNSOperatingSystemVersion_def SwiftKnownNSErrorKey_decl_def SwiftObjCBool_def
      SwiftCBool_cxx_def SwiftCBool_c_def swift_stdlib_operatingSystemVersion_def
      swift_stdlib_nserror_key_def swift_stdlib_perform_error_recovery_selector_def)

lemma decl_kinds:
  "\<not> is_prototype SwiftNSRange" "is_mirrored_type SwiftNSRange"
  "\<not> is_prototype SwiftNSFastEnumerationState" "is_mirrored_type SwiftNSFastEnumerationState"
  "\<not> is_prototype SwiftNSOperatingSystemVersion"
  "is_mirrored_type SwiftNSOperatingSystemVersion"
  "\<not> is_prototype SwiftKnownNSErrorKey_decl" "is_mirrored_type SwiftKnownNSErrorKey_decl"
  "\<not> is_prototype SwiftObjCBool" "\<not> is_mirrored_type SwiftObjCBool"
  "\<not> is_prototype SwiftCBool_cxx" "\<not> is_mirrored_type SwiftCBool_cxx"
  "\<not> is_prototype SwiftCBool_c" "\<not> is_mirrored_type SwiftCBool_c"
  "is_scalar_alias SwiftObjCBool" "is_scalar_alias SwiftCBool_cxx" "is_scalar_alias SwiftCBool_c"
  "\<not> is_scalar_alias SwiftNSRange" "\<not> is_scalar_alias SwiftNSFastEnumerationState"
  "\<not> is_scalar_alias SwiftNSOperatingSystemVersion"
  "\<not> is_scalar_alias SwiftKnownNSErrorKey_decl"
  by (simp_all add: SwiftNSRange_def SwiftNSFastEnumerationState_def
      SwiftNSOperatingSystemVersion_def SwiftKnownNSErrorKey_decl_def SwiftObjCBool_def
      SwiftCBool_cxx_def SwiftCBool_c_def)

lemma nserror_key_simps:
  "nserror_key 0 = Some (Ref LocalizedDescription)"
  "nserror_key 1 = Some (Ref LocalizedFailureReason)"
  "nserror_key 2 = Some (Ref LocalizedRecoverySuggestion)"
  "nserror_key 3 = Some (Ref HelpAnchor)"
  "nserror_key 4 = Some (Ref LocalizedRecoveryOptions)"
  "nserror_key 5 = Some (Ref RecoveryAttempter)"
  by (simp_all add: nserror_key_def all_keys_def rawValue_simps)

lemma nserror_key_None: "(nserror_key w = None) = (\<forall>k. rawValue k \<noteq> Some w)"
proof -
  have "(filter (\<lambda>k. rawValue k = Some w) all_keys = []) = (\<forall>k. rawValue k \<noteq> Some w)"
    by (auto simp: filter_empty_conv all_keys_complete)
  then show ?thesis
    by (cases "filter (\<lambda>k. rawValue k = Some w) all_keys") (simp_all add: nserror_key_def)
qed

lemma struct_lookups:
  "lookup_decl ''_SwiftNSRange'' (translation_unit inc m) =
     (if guard \<in> m then None else Some SwiftNSRange)"
  "lookup_decl ''_SwiftNSOperatingSystemVersion'' (translation_unit inc m) =
     (if guard \<in> m then None else Some SwiftNSOperatingSystemVersion)"
  "lookup_decl ''_SwiftNSFastEnumerationState'' (translation_unit inc m) =
     (if guard \<notin> m \<and> ''__OBJC2__'' \<in> macros_after_include inc m
      then Some SwiftNSFastEnumerationState else None)"
  by (simp_all add: lookup_translation_unit pp_guarded_body decl_names)

text \<open>Two translation units in full: Objective-C, then C++, each with an included
  file that leaves the macros alone.\<close>

lemma translation_unit_objc:
  "translation_unit (\<lambda>f m. m) {''__OBJC2__''} =
     [Included ''SwiftStdint.h'', SwiftNSRange, SwiftNSFastEnumerationState,
      SwiftNSOperatingSystemVersion, Prototype swift_stdlib_operatingSystemVersion,
      SwiftKnownNSErrorKey_decl, Prototype swift_stdlib_nserror_key, SwiftObjCBool,
      SwiftCBool_c, Prototype swift_stdlib_perform_error_recovery_selector]"
  by (simp add: translation_unit_def pp_header pp_guarded_body macros_after_include_def
      guard_def)

lemma translation_unit_cxx:
  "translation_unit (\<lambda>f m. m) {''__cplusplus''} =
     [Included ''SwiftStdint.h'', Linkage_open, SwiftNSRange,
      SwiftNSOperatingSystemVersion, Prototype swift_stdlib_operatingSystemVersion,
      SwiftKnownNSErrorKey_decl, Prototype swift_stdlib_nserror_key, SwiftObjCBool,
      SwiftCBool_cxx, Prototype swift_stdlib_perform_error_recovery_selector,
      Linkage_close]"
  by (simp add: translation_unit_def pp_header pp_guarded_body macros_after_include_def
      guard_def)

text \<open>The guard is what makes a second inclusion empty: were it undefined again
  after the include, the second inclusion would repeat the declarations.\<close>

lemma length_pp_guarded_body: "9 \<le> length (fst (pp_items inc guarded_body (m, own)))"
  by (simp add: pp_guarded_body)

lemma include_twice_unguarded:
  assumes "guard \<notin> m" and "guard \<notin> macros_after_include inc m"
  shows "fst (include_times inc 2 m) \<noteq> fst (include_times inc 1 m)"
proof -
  obtain ds m' own' where once: "pp_items inc guarded_body (m, {}) = (ds, (m', own'))"
    by (cases "pp_items inc guarded_body (m, {})") auto
  then have m': "m' = insert ''SWIFT_ENUM'' (macros_after_include inc m)"
    by (simp add: pp_guarded_body)
  have "guard \<notin> m'"
    using assms(2) by (simp add: m' guard_def)
  obtain ds' s'' where again: "pp_items inc guarded_body (m', own') = (ds', s'')"
    by (cases "pp_items inc guarded_body (m', own')")
  have "9 \<le> length ds'"
    using length_pp_guarded_body [of inc m' own'] by (simp add: again)
  moreover have "fst (include_times inc 2 m) = ds @ ds'"
    using assms(1) \<open>guard \<notin> m'\<close>
    by (simp add: include_times_def numeral_2_eq_2 pp_items_append pp_header once again
        split: prod.split)
  moreover have "fst (include_times inc 1 m) = ds"
    using assms(1) by (simp add: include_times_def pp_header once)
  ultimately show ?thesis by auto
qed

section \<open>The claims\<close>



text \<open>
  C2, as stated: the file declares exactly four function prototypes. It does not: the
  prototypes written in the file are not four.
\<close>

theorem four_prototypes_counterexample:
  "length (filter is_prototype (written FoundationShims_h)) \<noteq> 4"
  by (simp add: written_header decl_kinds)

text \<open>
  C2, amended. The file declares exactly three function prototypes,
  \<^verbatim>\<open>_swift_stdlib_operatingSystemVersion\<close>, \<^verbatim>\<open>_swift_stdlib_nserror_key\<close> and
  \<^verbatim>\<open>_swift_stdlib_perform_error_recovery_selector\<close>, and a translation unit that
  enters the header with its guard undefined sees all three; the mirrored type declarations
  written in the file are four, of which a translation unit sees three or, with
  \<^verbatim>\<open>__OBJC2__\<close>, all four.
\<close>

theorem three_prototypes:
  "map decl_name (filter is_prototype (written FoundationShims_h)) =
     [Some ''_swift_stdlib_operatingSystemVersion'',
      Some ''_swift_stdlib_nserror_key'',
      Some ''_swift_stdlib_perform_error_recovery_selector'']
   \<and> length (filter is_prototype (written FoundationShims_h)) = 3
   \<and> length (filter is_prototype (translation_unit inc m)) = (if guard \<in> m then 0 else 3)
   \<and> map decl_name (filter is_mirrored_type (written FoundationShims_h)) =
       [Some ''_SwiftNSRange'', Some ''_SwiftNSFastEnumerationState'',
        Some ''_SwiftNSOperatingSystemVersion'', Some ''_SwiftKnownNSErrorKey'']
   \<and> length (filter is_mirrored_type (written FoundationShims_h)) = 4
   \<and> length (filter is_mirrored_type (translation_unit inc m)) =
       (if guard \<in> m then 0
        else if ''__OBJC2__'' \<in> macros_after_include inc m then 4 else 3)"
  by (simp add: written_header translation_unit_def pp_header pp_guarded_body
      decl_kinds decl_names)

text \<open>
  C3. The prototype of \<^verbatim>\<open>_swift_stdlib_nserror_key\<close> takes one known-error-key
  tag and declares its result \<^verbatim>\<open>id _Nonnull\<close>, a type that admits no null reference.
  For each of the six tags the lookup returns a reference, never null, that the declared
  type admits; for an 8-bit value that is the value of no tag the behaviour is undefined
  (\<open>None\<close>), and only for those.
\<close>

theorem nserror_key_nonnull:
  "lookup_decl ''_swift_stdlib_nserror_key'' (translation_unit inc m) =
     (if guard \<in> m then None else Some (Prototype swift_stdlib_nserror_key))
   \<and> params swift_stdlib_nserror_key = [(''key'', Typedef_name ''_SwiftKnownNSErrorKey'')]
   \<and> nullability_of (return_type swift_stdlib_nserror_key) = Some Nonnull
   \<and> \<not> admits (return_type swift_stdlib_nserror_key) (Null :: SwiftKnownNSErrorKey ref)
   \<and> (\<forall>k. \<exists>w. rawValue k = Some w \<and> nserror_key w = Some (Ref k)
            \<and> admits (return_type swift_stdlib_nserror_key) (Ref k))
   \<and> (\<forall>w. nserror_key w \<noteq> Some Null)
   \<and> (\<forall>w. (nserror_key w = None) = (\<forall>k. rawValue k \<noteq> Some w))"
proof -
  have "\<exists>w. rawValue k = Some w \<and> nserror_key w = Some (Ref k)
            \<and> admits (return_type swift_stdlib_nserror_key) (Ref k)" for k
    by (cases k) (simp_all add: rawValue_simps nserror_key_simps swift_stdlib_nserror_key_def)
  moreover have "nserror_key w \<noteq> Some Null" for w
    by (simp add: nserror_key_def split: list.split)
  moreover have "lookup_decl ''_swift_stdlib_nserror_key'' (translation_unit inc m) =
     (if guard \<in> m then None else Some (Prototype swift_stdlib_nserror_key))"
    by (simp add: lookup_translation_unit pp_guarded_body decl_names)
  moreover have "params swift_stdlib_nserror_key = [(''key'', Typedef_name ''_SwiftKnownNSErrorKey'')]"
    and "nullability_of (return_type swift_stdlib_nserror_key) = Some Nonnull"
    and "\<not> admits (return_type swift_stdlib_nserror_key) (Null :: SwiftKnownNSErrorKey ref)"
    by (simp_all add: swift_stdlib_nserror_key_def)
  ultimately show ?thesis
    using nserror_key_None by blast
qed

text \<open>
  C4. The prototype of \<^verbatim>\<open>_swift_stdlib_perform_error_recovery_selector\<close> has the
  parameters delegate, selector, success and contextInfo. The delegate and the context
  pointer are marked nullable and admit a null reference, the selector is marked non-null
  and admits none. The function returns \<^verbatim>\<open>void\<close> and has no parameter through which
  an error could come back.
\<close>

theorem perform_error_recovery_selector_signature:
  "lookup_decl ''_swift_stdlib_perform_error_recovery_selector'' (translation_unit inc m) =
     (if guard \<in> m then None
      else Some (Prototype swift_stdlib_perform_error_recovery_selector))
   \<and> map fst (params swift_stdlib_perform_error_recovery_selector) =
       [''delegate'', ''selector'', ''success'', ''contextInfo'']
   \<and> map (nullability_of \<circ> snd) (params swift_stdlib_perform_error_recovery_selector) =
       [Some Nullable, Some Nonnull, None, Some Nullable]
   \<and> map (\<lambda>(n, t). admits t (Null :: 'a ref)) (params swift_stdlib_perform_error_recovery_selector) =
       [True, False, False, True]
   \<and> return_type swift_stdlib_perform_error_recovery_selector = Void
   \<and> filter (is_out_param \<circ> snd) (params swift_stdlib_perform_error_recovery_selector) = []"
proof -
  have "lookup_decl ''_swift_stdlib_perform_error_recovery_selector'' (translation_unit inc m) =
     (if guard \<in> m then None
      else Some (Prototype swift_stdlib_perform_error_recovery_selector))"
    by (simp add: lookup_translation_unit pp_guarded_body decl_names)
  then show ?thesis
    by (simp add: swift_stdlib_perform_error_recovery_selector_def)
qed

text \<open>
  C5. The range mirror \<^verbatim>\<open>_SwiftNSRange\<close> is a struct of exactly two fields, location
  then length, both of the pointer-wide signed integer type \<^verbatim>\<open>__swift_intptr_t\<close>.
\<close>

theorem range_mirror_fields:
  "lookup_decl ''_SwiftNSRange'' (translation_unit inc m) =
     (if guard \<in> m then None
      else Some (Typedef_struct ''_SwiftNSRange''
             [(''location'', Typedef_name ''__swift_intptr_t''),
              (''length'', Typedef_name ''__swift_intptr_t'')]))
   \<and> resolve_fields ptr_bits
        [(''location'', Typedef_name ''__swift_intptr_t''),
         (''length'', Typedef_name ''__swift_intptr_t'')] =
       [(''location'', Signed_int ptr_bits), (''length'', Signed_int ptr_bits)]"
  by (simp add: struct_lookups SwiftNSRange_def resolve_fields_def stdint_typedef_def)

text \<open>
  C6. The version mirror \<^verbatim>\<open>_SwiftNSOperatingSystemVersion\<close> is a struct of exactly
  three fields, majorVersion, minorVersion, patchVersion in that order, all of the
  pointer-wide signed integer type \<^verbatim>\<open>__swift_intptr_t\<close>.
\<close>

theorem os_version_mirror_fields:
  "lookup_decl ''_SwiftNSOperatingSystemVersion'' (translation_unit inc m) =
     (if guard \<in> m then None
      else Some (Typedef_struct ''_SwiftNSOperatingSystemVersion''
             [(''majorVersion'', Typedef_name ''__swift_intptr_t''),
              (''minorVersion'', Typedef_name ''__swift_intptr_t''),
              (''patchVersion'', Typedef_name ''__swift_intptr_t'')]))
   \<and> resolve_fields ptr_bits
        [(''majorVersion'', Typedef_name ''__swift_intptr_t''),
         (''minorVersion'', Typedef_name ''__swift_intptr_t''),
         (''patchVersion'', Typedef_name ''__swift_intptr_t'')] =
       [(''majorVersion'', Signed_int ptr_bits), (''minorVersion'', Signed_int ptr_bits),
        (''patchVersion'', Signed_int ptr_bits)]"
  by (simp add: struct_lookups SwiftNSOperatingSystemVersion_def resolve_fields_def
      stdint_typedef_def)

text \<open>
  C7. The enumeration-state mirror \<^verbatim>\<open>_SwiftNSFastEnumerationState\<close> has, in this
  order, the field state of type \<^verbatim>\<open>unsigned long\<close>, the field itemsPtr, a nullable
  pointer to nullable unretained object references, the field mutationsPtr, a nullable
  pointer to \<^verbatim>\<open>unsigned long\<close>, and the field extra, an array of exactly 5
  \<^verbatim>\<open>unsigned long\<close>. The compiler sees the declaration exactly when the header is
  entered (its guard undefined) and \<^verbatim>\<open>__OBJC2__\<close> is defined where the conditional
  stands; when the included file leaves the macros alone, that is when \<^verbatim>\<open>__OBJC2__\<close>
  was defined on entry.
\<close>

theorem fast_enumeration_state_mirror:
  "lookup_decl ''_SwiftNSFastEnumerationState'' (translation_unit inc m) =
     (if guard \<notin> m \<and> ''__OBJC2__'' \<in> macros_after_include inc m
      then Some (Typedef_struct ''_SwiftNSFastEnumerationState''
             [(''state'', Unsigned_long),
              (''itemsPtr'', Pointer (Objc_id Unsafe_unretained Nullable) Nullable),
              (''mutationsPtr'', Pointer Unsigned_long Nullable),
              (''extra'', Array Unsigned_long 5)])
      else None)
   \<and> (SwiftNSFastEnumerationState \<in> set (translation_unit inc m)) =
       (guard \<notin> m \<and> ''__OBJC2__'' \<in> macros_after_include inc m)
   \<and> (SwiftNSFastEnumerationState \<in> set (translation_unit (\<lambda>f m. m) m)) =
       (guard \<notin> m \<and> ''__OBJC2__'' \<in> m)"
proof -
  have mem: "(SwiftNSFastEnumerationState \<in> set (translation_unit inc' m)) =
       (guard \<notin> m \<and> ''__OBJC2__'' \<in> macros_after_include inc' m)" for inc'
    by (simp add: translation_unit_def pp_header pp_guarded_body
        SwiftNSFastEnumerationState_def SwiftNSRange_def SwiftNSOperatingSystemVersion_def
        SwiftKnownNSErrorKey_decl_def SwiftObjCBool_def SwiftCBool_cxx_def SwiftCBool_c_def)
  have "(''__OBJC2__'' \<in> macros_after_include (\<lambda>f m. m) m) = (''__OBJC2__'' \<in> m)"
    by (simp add: macros_after_include_def guard_def)
  with mem [of "\<lambda>f m. m"] mem [of inc] show ?thesis
    by (simp add: struct_lookups SwiftNSFastEnumerationState_def)
qed

text \<open>
  C8. The prototype of \<^verbatim>\<open>_swift_stdlib_operatingSystemVersion\<close> is written with an
  empty parameter list and returns the struct \<^verbatim>\<open>_SwiftNSOperatingSystemVersion\<close> by
  value: the return type is no pointer, so it admits no null, and there is no parameter
  through which an error could come back.
\<close>

theorem operatingSystemVersion_signature:
  "lookup_decl ''_swift_stdlib_operatingSystemVersion'' (translation_unit inc m) =
     (if guard \<in> m then None else Some (Prototype swift_stdlib_operatingSystemVersion))
   \<and> params swift_stdlib_operatingSystemVersion = []
   \<and> return_type swift_stdlib_operatingSystemVersion =
       Typedef_name ''_SwiftNSOperatingSystemVersion''
   \<and> lookup_decl ''_SwiftNSOperatingSystemVersion'' (translation_unit inc m) =
       (if guard \<in> m then None else Some SwiftNSOperatingSystemVersion)
   \<and> nullability_of (return_type swift_stdlib_operatingSystemVersion) = None
   \<and> \<not> admits (return_type swift_stdlib_operatingSystemVersion) (Null :: 'a ref)
   \<and> filter (is_out_param \<circ> snd) (params swift_stdlib_operatingSystemVersion) = []"
proof -
  have "lookup_decl ''_swift_stdlib_operatingSystemVersion'' (translation_unit inc m) =
     (if guard \<in> m then None else Some (Prototype swift_stdlib_operatingSystemVersion))"
    by (simp add: lookup_translation_unit pp_guarded_body decl_names)
  then show ?thesis
    by (simp add: struct_lookups swift_stdlib_operatingSystemVersion_def)
qed

text \<open>
  C9. Inclusion is idempotent. Provided the guard macro is still defined after the
  line \<^verbatim>\<open>#include "SwiftStdint.h"\<close> (the included file does not undefine it),
  including the header \<open>n + 1\<close> times in a row gives the same declarations, and the
  same macros, as including it once, whatever macros were defined before.
\<close>

theorem include_idempotent:
  assumes "guard \<in> macros_after_include inc m"
  shows "include_times inc (Suc n) m = include_times inc 1 m"
proof -
  obtain ds m' own' where once: "pp_items inc FoundationShims_h (m, {}) = (ds, (m', own'))"
    by (cases "pp_items inc FoundationShims_h (m, {})") auto
  with guard_after [OF assms, of "{}"] have "guard \<in> m'" by simp
  then have rest: "pp_items inc (concat (replicate k FoundationShims_h)) (m', own') =
      ([], (m', own'))" for k
    by (rule pp_copies_guarded)
  have "include_times inc (Suc n) m = (ds, m')"
    unfolding include_times_def pp_copies_Suc by (simp add: once rest)
  moreover have "include_times inc 1 m = (ds, m')"
    by (simp add: include_times_def once)
  ultimately show ?thesis by simp
qed

text \<open>
  Three inclusions against one, from no macros at all and with an included file
  that leaves the macros alone.
\<close>

theorem include_idempotent_witness:
  "guard \<in> macros_after_include (\<lambda>f m. m) {}
   \<and> include_times (\<lambda>f m. m) 3 {} = include_times (\<lambda>f m. m) 1 {}
   \<and> fst (include_times (\<lambda>f m. m) 1 {}) =
       [Included ''SwiftStdint.h'', SwiftNSRange, SwiftNSOperatingSystemVersion,
        Prototype swift_stdlib_operatingSystemVersion, SwiftKnownNSErrorKey_decl,
        Prototype swift_stdlib_nserror_key, SwiftObjCBool, SwiftCBool_c,
        Prototype swift_stdlib_perform_error_recovery_selector]"
proof -
  have h: "guard \<in> macros_after_include (\<lambda>f m. m) {}"
    by (simp add: macros_after_include_def)
  have "include_times (\<lambda>f m. m) (Suc 2) {} = include_times (\<lambda>f m. m) 1 {}"
    by (rule include_idempotent [OF h])
  moreover have "fst (include_times (\<lambda>f m. m) 1 {}) =
       [Included ''SwiftStdint.h'', SwiftNSRange, SwiftNSOperatingSystemVersion,
        Prototype swift_stdlib_operatingSystemVersion, SwiftKnownNSErrorKey_decl,
        Prototype swift_stdlib_nserror_key, SwiftObjCBool, SwiftCBool_c,
        Prototype swift_stdlib_perform_error_recovery_selector]"
    by (simp add: include_times_def pp_header pp_guarded_body macros_after_include_def guard_def)
  ultimately show ?thesis using h by (simp add: numeral_3_eq_3)
qed

text \<open>
  C10. Besides the mirrored types the file writes three typedefs of two boolean
  aliases: \<^verbatim>\<open>_SwiftObjCBool\<close> is \<^verbatim>\<open>signed char\<close>, and \<^verbatim>\<open>_SwiftCBool\<close> is
  \<^verbatim>\<open>bool\<close> when \<^verbatim>\<open>__cplusplus\<close> is defined and \<^verbatim>\<open>_Bool\<close> otherwise. The
  success flag of the error-recovery entry point has the type \<^verbatim>\<open>_SwiftCBool\<close>; no
  parameter of it has the type \<^verbatim>\<open>_SwiftObjCBool\<close>.
\<close>

theorem bool_aliases:
  "filter is_scalar_alias (written FoundationShims_h) =
     [Typedef ''_SwiftObjCBool'' Signed_char, Typedef ''_SwiftCBool'' Cxx_bool,
      Typedef ''_SwiftCBool'' C_Bool]
   \<and> lookup_decl ''_SwiftObjCBool'' (translation_unit inc m) =
       (if guard \<in> m then None else Some (Typedef ''_SwiftObjCBool'' Signed_char))
   \<and> lookup_decl ''_SwiftCBool'' (translation_unit inc m) =
       (if guard \<in> m then None
        else if ''__cplusplus'' \<in> macros_after_include inc m
        then Some (Typedef ''_SwiftCBool'' Cxx_bool)
        else Some (Typedef ''_SwiftCBool'' C_Bool))
   \<and> map_of (params swift_stdlib_perform_error_recovery_selector) ''success'' =
       Some (Typedef_name ''_SwiftCBool'')
   \<and> Typedef_name ''_SwiftObjCBool''
       \<notin> snd ` set (params swift_stdlib_perform_error_recovery_selector)"
proof -
  have "filter is_scalar_alias (written FoundationShims_h) =
     [SwiftObjCBool, SwiftCBool_cxx, SwiftCBool_c]"
    by (simp add: written_header decl_kinds)
  moreover have "lookup_decl ''_SwiftObjCBool'' (translation_unit inc m) =
       (if guard \<in> m then None else Some SwiftObjCBool)"
    by (simp add: lookup_translation_unit pp_guarded_body decl_names)
  moreover have "lookup_decl ''_SwiftCBool'' (translation_unit inc m) =
       (if guard \<in> m then None
        else if ''__cplusplus'' \<in> macros_after_include inc m
        then Some SwiftCBool_cxx else Some SwiftCBool_c)"
    by (simp add: lookup_translation_unit pp_guarded_body decl_names)
  ultimately show ?thesis
    by (simp add: SwiftObjCBool_def SwiftCBool_cxx_def SwiftCBool_c_def
        swift_stdlib_perform_error_recovery_selector_def)
qed

end
